theory Spec2Isabelle
  imports Main
begin

section \<open>The fine-tuning notebook: objects exchanged with the service\<close>

text \<open>
  The repository is one notebook, \<^verbatim>\<open>fine-tune-flow.ipynb\<close>. Its code cells call the
  client library of an external fine-tuning service, one endpoint per cell, and print
  fields of the answers. The development below embeds the code cells. The service itself
  is no code of the repository: it enters every definition as a parameter.
\<close>

text \<open>
  The job status is a string of the service; the client library types it as one of six
  literals. The notebook prints it (\<^verbatim>\<open>Status: validating_files\<close>, \<^verbatim>\<open>Status: running\<close>).
\<close>

datatype status = validating_files | queued | running | succeeded | failed | cancelled

fun status_str :: "status \<Rightarrow> string" where
  "status_str validating_files = ''validating_files''"
| "status_str queued = ''queued''"
| "status_str running = ''running''"
| "status_str succeeded = ''succeeded''"
| "status_str failed = ''failed''"
| "status_str cancelled = ''cancelled''"

text \<open>The answer of \<^verbatim>\<open>client.files.create\<close>; the notebook reads \<^verbatim>\<open>.id\<close>.\<close>

record file_object =
  id_file :: string

text \<open>
  The job object answered by \<^verbatim>\<open>jobs.create\<close> and \<^verbatim>\<open>jobs.retrieve\<close>. The notebook reads
  \<^verbatim>\<open>.id\<close>, \<^verbatim>\<open>.status\<close>, \<^verbatim>\<open>.trained_tokens\<close> and \<^verbatim>\<open>.fine_tuned_model\<close>; the last two
  may be \<^verbatim>\<open>None\<close>.
\<close>

record job =
  id_job :: string
  status :: status
  trained_tokens :: "int option"
  fine_tuned_model :: "string option"

text \<open>
  An event of a job. The notebook reads \<^verbatim>\<open>.message\<close> only; \<open>created_at\<close> is the
  time stamp the service gives each event, by which "newest first" and "chronological"
  are stated.
\<close>

record event =
  created_at :: int
  message :: string

text \<open>The answer of \<^verbatim>\<open>jobs.list_events\<close>: one page, read through \<^verbatim>\<open>.data\<close>.\<close>

record page =
  data :: "event list"

text \<open>The answer of \<^verbatim>\<open>chat.completions.create\<close>, read as \<^verbatim>\<open>.choices[0].message.content\<close>.\<close>

record chat_message =
  content :: "string option"

record choice =
  message_choice :: chat_message

record chat_completion =
  choices :: "choice list"

text \<open>
  The keyword arguments of \<^verbatim>\<open>jobs.create\<close>. The notebook's text lists
  \<^verbatim>\<open>validation_file\<close>, \<^verbatim>\<open>suffix\<close>, \<^verbatim>\<open>seed\<close>, the hyperparameters (\<^verbatim>\<open>batch_size\<close>,
  \<^verbatim>\<open>learning_rate_multiplier\<close>, \<^verbatim>\<open>n_epochs\<close>) and the integrations as optional; an
  argument that a call does not give is \<open>None\<close>. The notebook's code gives no
  hyperparameter and no integration anywhere, so their values stay as written text: a
  list of names with values, and a list of names.
\<close>

record job_request =
  training_file :: string
  validation_file :: "string option"
  model :: string
  suffix :: "string option"
  seed :: "int option"
  hyperparameters :: "(string \<times> string) list option"
  integrations :: "string list option"

text \<open>The keyword arguments of \<^verbatim>\<open>chat.completions.create\<close>; a message is a role and a content.\<close>

record chat_request =
  model_chat :: string
  messages :: "(string \<times> string) list"
  temperature :: int
  max_tokens :: int

section \<open>The service and the errors\<close>

text \<open>
  The five endpoints the notebook calls. A call meets the service in a state \<open>'s\<close>, is
  answered with an object or raises an exception \<open>'e\<close> of the client library, and leaves
  the service in a state. Nothing is assumed of the endpoints.
\<close>

record ('s, 'e) client =
  files_create :: "'s \<Rightarrow> string \<Rightarrow> string \<Rightarrow> ('e + file_object) \<times> 's"
  jobs_create :: "'s \<Rightarrow> job_request \<Rightarrow> ('e + job) \<times> 's"
  jobs_retrieve :: "'s \<Rightarrow> string \<Rightarrow> ('e + job) \<times> 's"
  jobs_list_events :: "'s \<Rightarrow> string \<Rightarrow> ('e + page) \<times> 's"
  chat_completions_create :: "'s \<Rightarrow> chat_request \<Rightarrow> ('e + chat_completion) \<times> 's"

text \<open>
  What a cell can raise: the \<^verbatim>\<open>RuntimeError\<close> of the model-name cell, the
  \<^verbatim>\<open>FileNotFoundError\<close> of \<^verbatim>\<open>open\<close>, the \<^verbatim>\<open>IndexError\<close> of \<^verbatim>\<open>choices[0]\<close>, and an
  exception of the client library, which no cell catches.
\<close>

datatype 'e error =
  RuntimeError string
| FileNotFoundError string
| IndexError
| APIError 'e

text \<open>What \<^verbatim>\<open>print\<close> is given: a line is the list of the printed objects.\<close>

datatype pyval = PyStr string | PyInt int | PyNone

type_synonym line = "pyval list"

section \<open>The cells\<close>

subsection \<open>Data setup\<close>

text \<open>
  \<^verbatim>\<open>os.path.join\<close> of two parts, as on POSIX: an absolute second part replaces the
  first, and a separator is put between the parts unless the first is empty or ends
  with one.
\<close>

definition os_path_join :: "string \<Rightarrow> string \<Rightarrow> string" where
  "os_path_join a b =
     (if b \<noteq> [] \<and> hd b = CHR ''/'' then b
      else if a = [] \<or> last a = CHR ''/'' then a @ b
      else a @ ''/'' @ b)"

definition data_folder :: string where
  "data_folder = ''data''"

definition training_file_name :: string where
  "training_file_name = os_path_join data_folder ''review_finetune_training.jsonl''"

definition validation_file_name :: string where
  "validation_file_name = os_path_join data_folder ''review_finetune_validation.jsonl''"

subsection \<open>Upload files\<close>

text \<open>
  The cell opens the training file and uploads it, then opens the validation file and
  uploads it, both with purpose \<^verbatim>\<open>"fine-tune"\<close>, and prints the two file ids. The
  files on disk are a map from paths to contents; \<^verbatim>\<open>open\<close> of a path that is not
  there raises \<^verbatim>\<open>FileNotFoundError\<close>. Neither \<^verbatim>\<open>open\<close> stands under a condition.
\<close>

definition upload_files ::
  "('s, 'e) client \<Rightarrow> (string \<rightharpoonup> string) \<Rightarrow> 's
     \<Rightarrow> ('e error + (string \<times> string) \<times> line list) \<times> 's" where
  "upload_files api fs s =
     (case fs training_file_name of
        None \<Rightarrow> (Inl (FileNotFoundError training_file_name), s)
      | Some training_fd \<Rightarrow>
          (case files_create api s training_fd ''fine-tune'' of
             (Inl e, s1) \<Rightarrow> (Inl (APIError e), s1)
           | (Inr training_response, s1) \<Rightarrow>
               (let training_file_id = id_file training_response in
                case fs validation_file_name of
                  None \<Rightarrow> (Inl (FileNotFoundError validation_file_name), s1)
                | Some validation_fd \<Rightarrow>
                    (case files_create api s1 validation_fd ''fine-tune'' of
                       (Inl e, s2) \<Rightarrow> (Inl (APIError e), s2)
                     | (Inr validation_response, s2) \<Rightarrow>
                         (let validation_file_id = id_file validation_response in
                          (Inr ((training_file_id, validation_file_id),
                                [[PyStr ''Training file ID:'', PyStr training_file_id],
                                 [PyStr ''Validation file ID:'', PyStr validation_file_id]]),
                           s2))))))"

subsection \<open>Create the fine-tuning job\<close>

text \<open>
  The keyword arguments of the one \<^verbatim>\<open>jobs.create\<close> call: the two file ids of the
  upload cell, and the literals \<^verbatim>\<open>"gpt-3.5-turbo"\<close> and \<^verbatim>\<open>"via-api"\<close>. The call gives no
  seed, no hyperparameters and no integrations.
\<close>

definition job_request :: "string \<Rightarrow> string \<Rightarrow> job_request" where
  "job_request training_file_id validation_file_id =
     \<lparr>training_file = training_file_id,
      validation_file = Some validation_file_id,
      model = ''gpt-3.5-turbo'',
      suffix = Some ''via-api'',
      seed = None,
      hyperparameters = None,
      integrations = None\<rparr>"

text \<open>
  The cell: the call, \<^verbatim>\<open>job_id = response.id\<close>, and the two printed lines. It yields
  the job object, the job id and the lines.
\<close>

definition create_job ::
  "('s, 'e) client \<Rightarrow> 's \<Rightarrow> string \<Rightarrow> string
     \<Rightarrow> ('e error + job \<times> string \<times> line list) \<times> 's" where
  "create_job api s training_file_id validation_file_id =
     (case jobs_create api s (job_request training_file_id validation_file_id) of
        (Inl e, s') \<Rightarrow> (Inl (APIError e), s')
      | (Inr response, s') \<Rightarrow>
          (Inr (response, id_job response,
                [[PyStr ''Job ID:'', PyStr (id_job response)],
                 [PyStr ''Status:'', PyStr (status_str (status response))]]), s'))"

subsection \<open>Check the job status\<close>

text \<open>
  The cell is one \<^verbatim>\<open>jobs.retrieve(job_id)\<close> and three printed lines: no loop, no
  waiting, no time limit. It yields the job object and the lines.
\<close>

definition status_lines :: "job \<Rightarrow> line list" where
  "status_lines response =
     [[PyStr ''Job ID:'', PyStr (id_job response)],
      [PyStr ''Status:'', PyStr (status_str (status response))],
      [PyStr ''Trained Tokens:'',
       (case trained_tokens response of None \<Rightarrow> PyNone | Some n \<Rightarrow> PyInt n)]]"

definition check_status ::
  "('s, 'e) client \<Rightarrow> 's \<Rightarrow> string \<Rightarrow> ('e error + job \<times> line list) \<times> 's" where
  "check_status api s job_id =
     (case jobs_retrieve api s job_id of
        (Inl e, s') \<Rightarrow> (Inl (APIError e), s')
      | (Inr response, s') \<Rightarrow> (Inr (response, status_lines response), s'))"

subsection \<open>List the events of the job\<close>

text \<open>
  \<^verbatim>\<open>events = response.data\<close>, \<^verbatim>\<open>events.reverse()\<close>, then one printed line for the
  message of each event. The list is reversed in place, so \<^verbatim>\<open>response.data\<close> is the
  reversed list too. The cell yields the answer as it then is, the events and the lines.
\<close>

definition list_events ::
  "('s, 'e) client \<Rightarrow> 's \<Rightarrow> string
     \<Rightarrow> ('e error + page \<times> event list \<times> line list) \<times> 's" where
  "list_events api s job_id =
     (case jobs_list_events api s job_id of
        (Inl e, s') \<Rightarrow> (Inl (APIError e), s')
      | (Inr response, s') \<Rightarrow>
          (let events = rev (data response) in
           (Inr (response\<lparr>data := events\<rparr>, events,
                 map (\<lambda>event. [PyStr (message event)]) events), s')))"

text \<open>The two orders of a list of events, by the time stamps.\<close>

definition newest_first :: "event list \<Rightarrow> bool" where
  "newest_first es = sorted_wrt (\<lambda>a b. created_at b \<le> created_at a) es"

definition chronological :: "event list \<Rightarrow> bool" where
  "chronological es = sorted_wrt (\<lambda>a b. created_at a \<le> created_at b) es"

subsection \<open>Retrieve the fine-tuned model name\<close>


text \<open>
  \<^verbatim>\<open>fine_tuned_model_id = response.fine_tuned_model\<close>
  \<^verbatim>\<open>if fine_tuned_model_id is None: raise RuntimeError("...")\<close>
  The test reads the one field; the status is not looked at.
\<close>

definition not_found_message :: string where
  "not_found_message =
     ''Fine-tuned model ID not found. Your job has likely not been completed yet.''"

definition extract_result_model :: "job \<Rightarrow> 'e error + string" where
  "extract_result_model response =
     (case fine_tuned_model response of
        None \<Rightarrow> Inl (RuntimeError not_found_message)
      | Some fine_tuned_model_id \<Rightarrow> Inr fine_tuned_model_id)"

text \<open>
  The whole cell: \<^verbatim>\<open>response = client.fine_tuning.jobs.retrieve(job_id)\<close>, the test
  above, then \<^verbatim>\<open>print("Fine-tuned model ID:", fine_tuned_model_id)\<close>. It yields the
  model name and the printed line.
\<close>

definition retrieve_model ::
  "('s, 'e) client \<Rightarrow> 's \<Rightarrow> string \<Rightarrow> ('e error + string \<times> line list) \<times> 's" where
  "retrieve_model api s job_id =
     (case jobs_retrieve api s job_id of
        (Inl e, s') \<Rightarrow> (Inl (APIError e), s')
      | (Inr response, s') \<Rightarrow>
          (case extract_result_model response of
             Inl err \<Rightarrow> (Inl err, s')
           | Inr fine_tuned_model_id \<Rightarrow>
               (Inr (fine_tuned_model_id,
                     [[PyStr ''Fine-tuned model ID:'', PyStr fine_tuned_model_id]]), s')))"

subsection \<open>Test the model\<close>

definition test_messages :: "(string \<times> string) list" where
  "test_messages =
     [(''system'', ''You are a restaurant review analyzer. Analyze the sentiment in the review provided. Output the rating value and the sentiment as JSON .''),
      (''user'', ''Review: Decent food, slow service, beatutiful decor. Would return, maybe.'')]"

definition chat_request :: "string \<Rightarrow> chat_request" where
  "chat_request fine_tuned_model_id =
     \<lparr>model_chat = fine_tuned_model_id,
      messages = test_messages,
      temperature = 0,
      max_tokens = 500\<rparr>"

text \<open>
  \<^verbatim>\<open>print(response.choices[0].message.content)\<close>: the index is taken with no test of
  the list, so an empty list raises \<^verbatim>\<open>IndexError\<close>. The content may be \<^verbatim>\<open>None\<close>.
\<close>

definition test_model ::
  "('s, 'e) client \<Rightarrow> 's \<Rightarrow> string \<Rightarrow> ('e error + line list) \<times> 's" where
  "test_model api s fine_tuned_model_id =
     (case chat_completions_create api s (chat_request fine_tuned_model_id) of
        (Inl e, s') \<Rightarrow> (Inl (APIError e), s')
      | (Inr response, s') \<Rightarrow>
          (case choices response of
             [] \<Rightarrow> (Inl IndexError, s')
           | c # _ \<Rightarrow>
               (Inr [[case content (message_choice c) of
                        None \<Rightarrow> PyNone | Some text \<Rightarrow> PyStr text]], s')))"

section \<open>Terminal statuses, and a service to run the cells on\<close>

text \<open>A terminal status is one of \<open>succeeded\<close>, \<open>failed\<close> and \<open>cancelled\<close>.\<close>

definition terminal :: "status \<Rightarrow> bool" where
  "terminal st = (st = succeeded \<or> st = failed \<or> st = cancelled)"

text \<open>
  The job the notebook's own run shows at the status cell:
  \<^verbatim>\<open>Job ID: ftjob-8X1gNa0yukCsdJBiytVKemkf\<close>, \<^verbatim>\<open>Status: running\<close>,
  \<^verbatim>\<open>Trained Tokens: None\<close>, and no fine-tuned model yet.
\<close>

definition running_job :: job where
  "running_job =
     \<lparr>id_job = ''ftjob-8X1gNa0yukCsdJBiytVKemkf'', status = running,
      trained_tokens = None, fine_tuned_model = None\<rparr>"

text \<open>
  A small service, used only to run the cells on concrete inputs. Its state is the one
  job it holds. It answers every upload with the same file id, answers a job creation
  and a retrieval of its job's id with the job, lists three events newest first, and
  completes a chat with no choice at all.
\<close>

definition example_events :: "event list" where
  "example_events =
     [\<lparr>created_at = 1703, message = ''Step 3/300: training loss=0.39''\<rparr>,
      \<lparr>created_at = 1702, message = ''Step 2/300: training loss=0.00''\<rparr>,
      \<lparr>created_at = 1701, message = ''Step 1/300: training loss=1.44''\<rparr>]"

definition example_client :: "(job, string) client" where
  "example_client =
     \<lparr>files_create = (\<lambda>s fd purpose. (Inr \<lparr>id_file = ''file-A''\<rparr>, s)),
      jobs_create = (\<lambda>s req. (Inr s, s)),
      jobs_retrieve =
        (\<lambda>s jid. (if jid = id_job s then Inr s else Inl ''No such job'', s)),
      jobs_list_events = (\<lambda>s jid. (Inr \<lparr>data = example_events\<rparr>, s)),
      chat_completions_create = (\<lambda>s req. (Inr \<lparr>choices = []\<rparr>, s))\<rparr>"

text \<open>The same service, but one that refuses every job creation.\<close>

definition rejecting_client :: "(job, string) client" where
  "rejecting_client =
     example_client\<lparr>jobs_create := (\<lambda>s req. (Inl ''Invalid file ID'', s))\<rparr>"

text \<open>The same service, but one that refuses a job creation without a validation file.\<close>

definition strict_client :: "(job, string) client" where
  "strict_client =
     example_client\<lparr>jobs_create :=
       (\<lambda>s req. if validation_file req = None
                  then (Inl ''validation_file is required'', s) else (Inr s, s))\<rparr>"

text \<open>A disk that holds the training file and no validation file.\<close>

definition training_only :: "string \<rightharpoonup> string" where
  "training_only = [training_file_name \<mapsto> ''{}'']"

text \<open>
  A service for the upload cell. Its state is the list of the contents uploaded so far.
  It refuses an empty file, and names every other file after its content.
\<close>

definition recording_client :: "(string list, string) client" where
  "recording_client =
     \<lparr>files_create =
        (\<lambda>s fd purpose. if fd = [] then (Inl ''File is empty'', s)
                         else (Inr \<lparr>id_file = ''file-'' @ fd\<rparr>, s @ [fd])),
      jobs_create = (\<lambda>s req. (Inl ''No jobs here'', s)),
      jobs_retrieve = (\<lambda>s jid. (Inl ''No such job'', s)),
      jobs_list_events = (\<lambda>s jid. (Inr \<lparr>data = []\<rparr>, s)),
      chat_completions_create = (\<lambda>s req. (Inr \<lparr>choices = []\<rparr>, s))\<rparr>"

text \<open>A disk that holds both files, and one whose validation file is empty.\<close>

definition both_files :: "string \<rightharpoonup> string" where
  "both_files = [training_file_name \<mapsto> ''T'', validation_file_name \<mapsto> ''V'']"

definition empty_validation :: "string \<rightharpoonup> string" where
  "empty_validation = [training_file_name \<mapsto> ''T'', validation_file_name \<mapsto> '''']"

section \<open>Properties\<close>

text \<open>
  C1, as the code has it: the model name is returned exactly when the field
  \<open>fine_tuned_model\<close> of the record is present, it is that field, the status of the
  record plays no part, and a record without the field raises the
  \<^verbatim>\<open>RuntimeError\<close> and yields no model name.
\<close>

theorem extract_result_model_iff_present:
  "(extract_result_model j = (Inr m :: 'e error + string) \<longleftrightarrow> fine_tuned_model j = Some m)
   \<and> ((extract_result_model j :: 'e error + string) = Inl (RuntimeError not_found_message)
        \<longleftrightarrow> fine_tuned_model j = None)
   \<and> (extract_result_model (j\<lparr>status := st\<rparr>) :: 'e error + string) = extract_result_model j"
  by (cases "fine_tuned_model j") (simp_all add: extract_result_model_def)

text \<open>
  C1 as stated fails: a record whose status is \<open>running\<close> and whose
  \<open>fine_tuned_model\<close> is set yields the model name, where the claim has an error.
\<close>

theorem extract_result_model_counterexample:
  "(extract_result_model
      \<lparr>id_job = ''ftjob-1'', status = running, trained_tokens = None,
       fine_tuned_model = Some ''ft:gpt-3.5-turbo:via-api''\<rparr> :: string error + string)
     = Inr ''ft:gpt-3.5-turbo:via-api''
   \<and> status \<lparr>id_job = ''ftjob-1'', status = running, trained_tokens = None,
       fine_tuned_model = Some ''ft:gpt-3.5-turbo:via-api''\<rparr> \<noteq> succeeded"
  by (simp add: extract_result_model_def)

text \<open>
  C2, C3, C5 and C7 speak of the service alone: the order in which it moves a job through
  its statuses, when it sets \<open>fine_tuned_model\<close>, whether a retrieval changes
  anything on its side and is answered alike when repeated, the status it gives a new
  job and whether a job ever ends. The cells print what the service answers and decide
  none of it, and the service is a parameter here, so these four are not stated.
\<close>

text \<open>
  C4, as the code has it: the notebook waits for nothing. Its status cell asks the
  service once and yields the job object the service answers with, whatever its status;
  an exception of that one call is passed on as it is, and the cell raises nothing else,
  so no time-out of its own.
\<close>

theorem check_status_single_poll:
  "(\<forall>r s'. jobs_retrieve api s job_id = (Inr r, s')
       \<longrightarrow> check_status api s job_id = (Inr (r, status_lines r), s'))
   \<and> (\<forall>e s'. jobs_retrieve api s job_id = (Inl e, s')
       \<longrightarrow> check_status api s job_id = (Inl (APIError e), s'))"
  by (simp add: check_status_def)

text \<open>Both cases on the example service: its own job, and a job id it does not know.\<close>

theorem check_status_single_poll_witness:
  "jobs_retrieve example_client running_job (id_job running_job) = (Inr running_job, running_job)
   \<and> check_status example_client running_job (id_job running_job)
       = (Inr (running_job, status_lines running_job), running_job)
   \<and> jobs_retrieve example_client running_job ''ftjob-0'' = (Inl ''No such job'', running_job)
   \<and> check_status example_client running_job ''ftjob-0''
       = (Inl (APIError ''No such job''), running_job)"
proof -
  have a: "jobs_retrieve example_client running_job (id_job running_job)
             = (Inr running_job, running_job)"
    by (simp add: example_client_def)
  have b: "jobs_retrieve example_client running_job ''ftjob-0''
             = (Inl ''No such job'', running_job)"
    by (simp add: example_client_def running_job_def)
  from check_status_single_poll [of example_client running_job "id_job running_job"] a
  have c: "check_status example_client running_job (id_job running_job)
             = (Inr (running_job, status_lines running_job), running_job)"
    by blast
  from check_status_single_poll [of example_client running_job "''ftjob-0''"] b
  have d: "check_status example_client running_job ''ftjob-0''
             = (Inl (APIError ''No such job''), running_job)"
    by blast
  from a b c d show ?thesis by simp
qed

text \<open>
  C4 as stated fails: on the job of the notebook's own run the status cell returns, with
  no error, a record whose status is \<open>running\<close>, which is not terminal.
\<close>

theorem check_status_counterexample:
  "check_status example_client running_job ''ftjob-8X1gNa0yukCsdJBiytVKemkf''
     = (Inr (running_job,
             [[PyStr ''Job ID:'', PyStr ''ftjob-8X1gNa0yukCsdJBiytVKemkf''],
              [PyStr ''Status:'', PyStr ''running''],
              [PyStr ''Trained Tokens:'', PyNone]]), running_job)
   \<and> \<not> terminal (status running_job)"
  by (simp add: check_status_def example_client_def running_job_def status_lines_def
        terminal_def)

text \<open>
  C6: when the page the service answers with lists the events newest first, the events
  cell yields that same finite list reversed, which is in chronological order, leaves the
  reversed list in \<^verbatim>\<open>response.data\<close>, and prints the messages in that order, one a line.
\<close>

theorem list_events_reversed_chronological:
  assumes "jobs_list_events api s job_id = (Inr response, s')"
      and "newest_first (data response)"
  shows "\<exists>response' events out.
           list_events api s job_id = (Inr (response', events, out), s')
           \<and> events = rev (data response)
           \<and> chronological events
           \<and> data response' = events
           \<and> out = map (\<lambda>event. [PyStr (message event)]) events"
  using assms
  by (simp add: list_events_def newest_first_def chronological_def sorted_wrt_rev Let_def)

text \<open>Three events of the example service, listed newest first.\<close>

theorem list_events_reversed_chronological_witness:
  "jobs_list_events example_client running_job (id_job running_job)
     = (Inr \<lparr>data = example_events\<rparr>, running_job)
   \<and> newest_first (data \<lparr>data = example_events\<rparr>)
   \<and> (\<exists>response' events out.
         list_events example_client running_job (id_job running_job)
           = (Inr (response', events, out), running_job)
         \<and> events = rev (data \<lparr>data = example_events\<rparr>)
         \<and> chronological events
         \<and> data response' = events
         \<and> out = map (\<lambda>event. [PyStr (message event)]) events)"
proof -
  have a: "jobs_list_events example_client running_job (id_job running_job)
             = (Inr \<lparr>data = example_events\<rparr>, running_job)"
    by (simp add: example_client_def)
  have b: "newest_first (data \<lparr>data = example_events\<rparr>)"
    by (simp add: newest_first_def example_events_def)
  from list_events_reversed_chronological [OF a b] a b show ?thesis by blast
qed

text \<open>
  C8: the job cell checks nothing itself. For every pair of file ids, well formed or not,
  the request it sends carries the two ids as they are, the literals
  \<^verbatim>\<open>"gpt-3.5-turbo"\<close> and \<^verbatim>\<open>"via-api"\<close>, and no seed, hyperparameters or integrations
  (the call has none to pass). An error of the service comes back unchanged, a job
  object of the service comes back as it is, and the cell fails in no other way.
\<close>

theorem create_job_passes_through:
  "training_file (job_request tid vid) = tid
   \<and> validation_file (job_request tid vid) = Some vid
   \<and> model (job_request tid vid) = ''gpt-3.5-turbo''
   \<and> suffix (job_request tid vid) = Some ''via-api''
   \<and> seed (job_request tid vid) = None
   \<and> hyperparameters (job_request tid vid) = None
   \<and> integrations (job_request tid vid) = None
   \<and> (\<forall>e s'. jobs_create api s (job_request tid vid) = (Inl e, s')
         \<longrightarrow> create_job api s tid vid = (Inl (APIError e), s'))
   \<and> (\<forall>r s'. jobs_create api s (job_request tid vid) = (Inr r, s')
         \<longrightarrow> (\<exists>out. create_job api s tid vid = (Inr (r, id_job r, out), s')))
   \<and> (\<forall>err. fst (create_job api s tid vid) = Inl err
         \<longrightarrow> (\<exists>e. err = APIError e \<and> fst (jobs_create api s (job_request tid vid)) = Inl e))"
proof -
  have fields:
    "training_file (job_request tid vid) = tid"
    "validation_file (job_request tid vid) = Some vid"
    "model (job_request tid vid) = ''gpt-3.5-turbo''"
    "suffix (job_request tid vid) = Some ''via-api''"
    "seed (job_request tid vid) = None"
    "hyperparameters (job_request tid vid) = None"
    "integrations (job_request tid vid) = None"
    by (simp_all add: job_request_def)
  have err: "\<forall>e s'. jobs_create api s (job_request tid vid) = (Inl e, s')
         \<longrightarrow> create_job api s tid vid = (Inl (APIError e), s')"
    by (simp add: create_job_def)
  have ok: "\<forall>r s'. jobs_create api s (job_request tid vid) = (Inr r, s')
         \<longrightarrow> (\<exists>out. create_job api s tid vid = (Inr (r, id_job r, out), s'))"
    by (simp add: create_job_def)
  have only: "\<forall>err. fst (create_job api s tid vid) = Inl err
         \<longrightarrow> (\<exists>e. err = APIError e \<and> fst (jobs_create api s (job_request tid vid)) = Inl e)"
    by (auto simp: create_job_def split: prod.splits sum.splits)
  from fields err ok only show ?thesis by blast
qed

text \<open>
  An empty training file id and a validation file id that is none: the example service
  is asked all the same and its job comes back; the rejecting service's error comes back.
\<close>

theorem create_job_passes_through_witness:
  "jobs_create example_client running_job (job_request '''' ''not a file id'')
     = (Inr running_job, running_job)
   \<and> (\<exists>out. create_job example_client running_job '''' ''not a file id''
         = (Inr (running_job, id_job running_job, out), running_job))
   \<and> jobs_create rejecting_client running_job (job_request '''' ''not a file id'')
     = (Inl ''Invalid file ID'', running_job)
   \<and> create_job rejecting_client running_job '''' ''not a file id''
     = (Inl (APIError ''Invalid file ID''), running_job)"
proof -
  have a: "jobs_create example_client running_job (job_request '''' ''not a file id'')
             = (Inr running_job, running_job)"
    by (simp add: example_client_def)
  have b: "jobs_create rejecting_client running_job (job_request '''' ''not a file id'')
             = (Inl ''Invalid file ID'', running_job)"
    by (simp add: rejecting_client_def)
  from create_job_passes_through [of "''''" "''not a file id''" example_client running_job] a
  have c: "\<exists>out. create_job example_client running_job '''' ''not a file id''
         = (Inr (running_job, id_job running_job, out), running_job)"
    by blast
  from create_job_passes_through [of "''''" "''not a file id''" rejecting_client running_job] b
  have d: "create_job rejecting_client running_job '''' ''not a file id''
     = (Inl (APIError ''Invalid file ID''), running_job)"
    by blast
  from a b c d show ?thesis by simp
qed

text \<open>
  C9: the validation file is mandatory in the notebook. Once the training file has been
  uploaded, the upload cell opens the validation file under no condition: when the file
  is not on disk the cell fails, with \<^verbatim>\<open>FileNotFoundError\<close> for its path; when it is on
  disk the cell uploads its content with purpose \<^verbatim>\<open>"fine-tune"\<close> to the service as the
  training upload left it, passes an error of that upload on, and otherwise yields the
  two file ids the service gave. The job cell sends exactly one request, which carries
  the validation file id it is given: the service's answer to that request is the
  cell's outcome, and what a service answers to requests without a
  \<^verbatim>\<open>validation_file\<close> has no effect on the cell.
\<close>

theorem validation_file_mandatory:
  "(fs validation_file_name = None \<longrightarrow> (\<exists>err. fst (upload_files api fs s) = Inl err))
   \<and> (\<forall>b r s1. fs training_file_name = Some b
         \<and> files_create api s b ''fine-tune'' = (Inr r, s1)
         \<and> fs validation_file_name = None
         \<longrightarrow> upload_files api fs s = (Inl (FileNotFoundError validation_file_name), s1))
   \<and> (\<forall>b r s1 v e s2. fs training_file_name = Some b
         \<and> files_create api s b ''fine-tune'' = (Inr r, s1)
         \<and> fs validation_file_name = Some v
         \<and> files_create api s1 v ''fine-tune'' = (Inl e, s2)
         \<longrightarrow> upload_files api fs s = (Inl (APIError e), s2))
   \<and> (\<forall>b r s1 v r2 s2. fs training_file_name = Some b
         \<and> files_create api s b ''fine-tune'' = (Inr r, s1)
         \<and> fs validation_file_name = Some v
         \<and> files_create api s1 v ''fine-tune'' = (Inr r2, s2)
         \<longrightarrow> upload_files api fs s
               = (Inr ((id_file r, id_file r2),
                       [[PyStr ''Training file ID:'', PyStr (id_file r)],
                        [PyStr ''Validation file ID:'', PyStr (id_file r2)]]), s2))
   \<and> validation_file (job_request tid vid) = Some vid
   \<and> (\<forall>e s'. jobs_create api s (job_request tid vid) = (Inl e, s')
         \<longrightarrow> create_job api s tid vid = (Inl (APIError e), s'))
   \<and> (\<forall>j s'. jobs_create api s (job_request tid vid) = (Inr j, s')
         \<longrightarrow> create_job api s tid vid
               = (Inr (j, id_job j,
                       [[PyStr ''Job ID:'', PyStr (id_job j)],
                        [PyStr ''Status:'', PyStr (status_str (status j))]]), s'))
   \<and> ((\<forall>req. validation_file req \<noteq> None \<longrightarrow> jobs_create api s req = jobs_create api' s req)
         \<longrightarrow> create_job api s tid vid = create_job api' s tid vid)"
proof -
  have fails: "fs validation_file_name = None \<longrightarrow> (\<exists>err. fst (upload_files api fs s) = Inl err)"
    by (auto simp: upload_files_def Let_def split: option.splits prod.splits sum.splits)
  have absent: "\<forall>b r s1. fs training_file_name = Some b
         \<and> files_create api s b ''fine-tune'' = (Inr r, s1)
         \<and> fs validation_file_name = None
         \<longrightarrow> upload_files api fs s = (Inl (FileNotFoundError validation_file_name), s1)"
    by (simp add: upload_files_def Let_def)
  have refused: "\<forall>b r s1 v e s2. fs training_file_name = Some b
         \<and> files_create api s b ''fine-tune'' = (Inr r, s1)
         \<and> fs validation_file_name = Some v
         \<and> files_create api s1 v ''fine-tune'' = (Inl e, s2)
         \<longrightarrow> upload_files api fs s = (Inl (APIError e), s2)"
    by (simp add: upload_files_def Let_def)
  have uploaded: "\<forall>b r s1 v r2 s2. fs training_file_name = Some b
         \<and> files_create api s b ''fine-tune'' = (Inr r, s1)
         \<and> fs validation_file_name = Some v
         \<and> files_create api s1 v ''fine-tune'' = (Inr r2, s2)
         \<longrightarrow> upload_files api fs s
               = (Inr ((id_file r, id_file r2),
                       [[PyStr ''Training file ID:'', PyStr (id_file r)],
                        [PyStr ''Validation file ID:'', PyStr (id_file r2)]]), s2)"
    by (simp add: upload_files_def Let_def)
  have sent: "validation_file (job_request tid vid) = Some vid"
    by (simp add: job_request_def)
  have err: "\<forall>e s'. jobs_create api s (job_request tid vid) = (Inl e, s')
         \<longrightarrow> create_job api s tid vid = (Inl (APIError e), s')"
    by (simp add: create_job_def)
  have ok: "\<forall>j s'. jobs_create api s (job_request tid vid) = (Inr j, s')
         \<longrightarrow> create_job api s tid vid
               = (Inr (j, id_job j,
                       [[PyStr ''Job ID:'', PyStr (id_job j)],
                        [PyStr ''Status:'', PyStr (status_str (status j))]]), s')"
    by (simp add: create_job_def)
  have only: "(\<forall>req. validation_file req \<noteq> None
                 \<longrightarrow> jobs_create api s req = jobs_create api' s req)
         \<longrightarrow> create_job api s tid vid = create_job api' s tid vid"
  proof
    assume same: "\<forall>req. validation_file req \<noteq> None
                    \<longrightarrow> jobs_create api s req = jobs_create api' s req"
    from sent have "validation_file (job_request tid vid) \<noteq> None" by simp
    with same
    have "jobs_create api s (job_request tid vid) = jobs_create api' s (job_request tid vid)"
      by blast
    then show "create_job api s tid vid = create_job api' s tid vid"
      by (simp add: create_job_def)
  qed
  show ?thesis
    by (intro conjI) (rule fails absent refused uploaded sent err ok only)+
qed

text \<open>
  The upload cell on three disks: with the training file only it raises for the
  validation file; with both files the recording service ends holding both contents,
  the validation file last, and the cell yields both ids; with an empty validation file
  the service's refusal of the second upload comes back. The job cell on the example
  service, on the one that refuses every job, and on the one that refuses requests
  without a validation file.
\<close>

theorem validation_file_mandatory_witness:
  "training_only validation_file_name = None
   \<and> training_only training_file_name = Some ''{}''
   \<and> files_create example_client running_job ''{}'' ''fine-tune''
       = (Inr \<lparr>id_file = ''file-A''\<rparr>, running_job)
   \<and> (\<exists>err. fst (upload_files example_client training_only running_job) = Inl err)
   \<and> upload_files example_client training_only running_job
       = (Inl (FileNotFoundError validation_file_name), running_job)
   \<and> both_files training_file_name = Some ''T''
   \<and> both_files validation_file_name = Some ''V''
   \<and> files_create recording_client [] ''T'' ''fine-tune''
       = (Inr \<lparr>id_file = ''file-T''\<rparr>, [''T''])
   \<and> files_create recording_client [''T''] ''V'' ''fine-tune''
       = (Inr \<lparr>id_file = ''file-V''\<rparr>, [''T'', ''V''])
   \<and> upload_files recording_client both_files []
       = (Inr ((''file-T'', ''file-V''),
               [[PyStr ''Training file ID:'', PyStr ''file-T''],
                [PyStr ''Validation file ID:'', PyStr ''file-V'']]), [''T'', ''V''])
   \<and> empty_validation training_file_name = Some ''T''
   \<and> empty_validation validation_file_name = Some ''''
   \<and> files_create recording_client [''T''] '''' ''fine-tune'' = (Inl ''File is empty'', [''T''])
   \<and> upload_files recording_client empty_validation []
       = (Inl (APIError ''File is empty''), [''T''])
   \<and> jobs_create example_client running_job (job_request ''file-A'' ''file-B'')
       = (Inr running_job, running_job)
   \<and> create_job example_client running_job ''file-A'' ''file-B''
       = (Inr (running_job, id_job running_job,
               [[PyStr ''Job ID:'', PyStr (id_job running_job)],
                [PyStr ''Status:'', PyStr (status_str (status running_job))]]), running_job)
   \<and> jobs_create rejecting_client running_job (job_request ''file-A'' ''file-B'')
       = (Inl ''Invalid file ID'', running_job)
   \<and> create_job rejecting_client running_job ''file-A'' ''file-B''
       = (Inl (APIError ''Invalid file ID''), running_job)
   \<and> create_job example_client running_job ''file-A'' ''file-B''
       = create_job strict_client running_job ''file-A'' ''file-B''"
proof -
  have names: "training_file_name \<noteq> validation_file_name"
    by (simp add: training_file_name_def validation_file_name_def os_path_join_def
          data_folder_def)
  have a: "training_only validation_file_name = None"
    using names by (simp add: training_only_def)
  have b: "training_only training_file_name = Some ''{}''"
    by (simp add: training_only_def)
  have c: "files_create example_client running_job ''{}'' ''fine-tune''
             = (Inr \<lparr>id_file = ''file-A''\<rparr>, running_job)"
    by (simp add: example_client_def)
  have d: "\<forall>req. validation_file req \<noteq> None
             \<longrightarrow> jobs_create example_client running_job req
                 = jobs_create strict_client running_job req"
    by (simp add: strict_client_def example_client_def)
  have bt: "both_files training_file_name = Some ''T''"
    using names by (simp add: both_files_def)
  have bv: "both_files validation_file_name = Some ''V''"
    by (simp add: both_files_def)
  have et: "empty_validation training_file_name = Some ''T''"
    using names by (simp add: empty_validation_def)
  have ev: "empty_validation validation_file_name = Some ''''"
    by (simp add: empty_validation_def)
  have u1: "files_create recording_client [] ''T'' ''fine-tune''
              = (Inr \<lparr>id_file = ''file-T''\<rparr>, [''T''])"
    by (simp add: recording_client_def)
  have u2: "files_create recording_client [''T''] ''V'' ''fine-tune''
              = (Inr \<lparr>id_file = ''file-V''\<rparr>, [''T'', ''V''])"
    by (simp add: recording_client_def)
  have u3: "files_create recording_client [''T''] '''' ''fine-tune''
              = (Inl ''File is empty'', [''T''])"
    by (simp add: recording_client_def)
  have j1: "jobs_create example_client running_job (job_request ''file-A'' ''file-B'')
              = (Inr running_job, running_job)"
    by (simp add: example_client_def)
  have j2: "jobs_create rejecting_client running_job (job_request ''file-A'' ''file-B'')
              = (Inl ''Invalid file ID'', running_job)"
    by (simp add: rejecting_client_def)
  note inst = validation_file_mandatory
    [of training_only example_client running_job "''file-A''" "''file-B''" strict_client]
  from inst a have e: "\<exists>err. fst (upload_files example_client training_only running_job) = Inl err"
    by blast
  from inst a b c have f: "upload_files example_client training_only running_job
       = (Inl (FileNotFoundError validation_file_name), running_job)"
    by blast
  from inst d have g: "create_job example_client running_job ''file-A'' ''file-B''
       = create_job strict_client running_job ''file-A'' ''file-B''"
    by blast
  from inst j1 have h: "create_job example_client running_job ''file-A'' ''file-B''
       = (Inr (running_job, id_job running_job,
               [[PyStr ''Job ID:'', PyStr (id_job running_job)],
                [PyStr ''Status:'', PyStr (status_str (status running_job))]]), running_job)"
    by blast
  from validation_file_mandatory
    [of training_only rejecting_client running_job "''file-A''" "''file-B''" rejecting_client] j2
  have i: "create_job rejecting_client running_job ''file-A'' ''file-B''
       = (Inl (APIError ''Invalid file ID''), running_job)"
    by blast
  from validation_file_mandatory
    [of both_files recording_client "[]" "''''" "''''" recording_client] bt bv u1 u2
  have k: "upload_files recording_client both_files []
       = (Inr ((id_file \<lparr>id_file = ''file-T''\<rparr>, id_file \<lparr>id_file = ''file-V''\<rparr>),
               [[PyStr ''Training file ID:'', PyStr (id_file \<lparr>id_file = ''file-T''\<rparr>)],
                [PyStr ''Validation file ID:'', PyStr (id_file \<lparr>id_file = ''file-V''\<rparr>)]]),
          [''T'', ''V''])"
    by blast
  from validation_file_mandatory
    [of empty_validation recording_client "[]" "''''" "''''" recording_client] et ev u1 u3
  have l: "upload_files recording_client empty_validation []
       = (Inl (APIError ''File is empty''), [''T''])"
    by blast
  from k have k': "upload_files recording_client both_files []
       = (Inr ((''file-T'', ''file-V''),
               [[PyStr ''Training file ID:'', PyStr ''file-T''],
                [PyStr ''Validation file ID:'', PyStr ''file-V'']]), [''T'', ''V''])"
    by simp
  show ?thesis
    by (intro conjI) (rule a b c e f bt bv u1 u2 k' et ev u3 l j1 h j2 i g)+
qed

text \<open>
  C10: the test cell takes \<^verbatim>\<open>response.choices[0]\<close> with no guard. Whenever the service
  answers the chat request with an empty list of choices, the cell fails with
  \<^verbatim>\<open>IndexError\<close>, whatever the model id, and prints nothing.
\<close>

theorem test_model_empty_choices:
  assumes "chat_completions_create api s (chat_request fine_tuned_model_id) = (Inr response, s')"
      and "choices response = []"
  shows "test_model api s fine_tuned_model_id = (Inl IndexError, s')"
  using assms by (simp add: test_model_def)

text \<open>The example service completes every chat with no choice.\<close>

theorem test_model_empty_choices_witness:
  "chat_completions_create example_client running_job (chat_request ''ft:gpt-3.5-turbo:via-api'')
     = (Inr \<lparr>choices = []\<rparr>, running_job)
   \<and> choices \<lparr>choices = []\<rparr> = []
   \<and> test_model example_client running_job ''ft:gpt-3.5-turbo:via-api''
     = (Inl IndexError, running_job)"
proof -
  have a: "chat_completions_create example_client running_job
             (chat_request ''ft:gpt-3.5-turbo:via-api'') = (Inr \<lparr>choices = []\<rparr>, running_job)"
    by (simp add: example_client_def)
  have b: "choices \<lparr>choices = []\<rparr> = []"
    by simp
  from test_model_empty_choices [OF a b] a b show ?thesis by simp
qed

text \<open>
  The model-name cell on the job of the notebook's own run, running and with no model
  yet: it raises the \<^verbatim>\<open>RuntimeError\<close> that the notebook shows as the cell's output.
\<close>

theorem retrieve_model_running_job:
  "retrieve_model example_client running_job ''ftjob-8X1gNa0yukCsdJBiytVKemkf''
     = (Inl (RuntimeError
          ''Fine-tuned model ID not found. Your job has likely not been completed yet.''),
        running_job)"
  by (simp add: retrieve_model_def extract_result_model_def example_client_def running_job_def
        not_found_message_def)

end
